theory Spec2Isabelle
  imports Complex_Main
begin

section \<open>Python values\<close>

text \<open>
  A Python \<open>str\<close> is a sequence of Unicode code points and a \<open>bytes\<close> object a sequence
  of octets. The string literals of the source that the model keeps are ASCII and are
  written \<open>str ''...''\<close>; the text of a \<open>print\<close> is kept as a message (see \<open>msg\<close>).
\<close>

type_synonym pystr = "nat list"

type_synonym bytes = string

abbreviation (input) str :: "string \<Rightarrow> pystr" where
  "str s \<equiv> map of_char s"

definition nl :: nat where
  "nl = 10"

text \<open>
  The values \<open>json.loads\<close> returns: \<open>None\<close>, \<open>bool\<close>, \<open>int\<close>, \<open>float\<close> (by its
  value, when finite), \<open>str\<close>, \<open>list\<close> and \<open>dict\<close> (its items in insertion order, looked
  up by key). The same type stands for every dynamically typed value of the source,
  \<open>JNull\<close> being \<open>None\<close>.
\<close>

datatype json = JNull | JBool bool | JInt int | JFloat real | JStr pystr
  | JArr "json list" | JObj "(pystr \<times> json) list"

text \<open>The exceptions the modelled code can raise; \<open>JSONDecodeError\<close> carries its message.\<close>

datatype error = ConnectionError | JSONDecodeError pystr | UnicodeDecodeError
  | TypeError | AttributeError | KeyError | FileNotFoundError | FileExistsError
  | SystemExit nat

text \<open>
  Library functions of Python the source calls and whose code is not part of the
  repository. They are parameters of the model: every theorem below holds for each
  choice of them.
  \<^item> \<open>json_loads\<close>: \<open>json.loads\<close>; \<open>Inl msg\<close> is a raised \<open>JSONDecodeError\<close>;
  \<^item> \<open>json_dumps\<close>: \<open>json.dumps(_, indent=2, ensure_ascii=False)\<close>;
  \<^item> \<open>utf8_decode\<close>: \<open>bytes.decode('utf-8')\<close>; \<open>None\<close> is a raised \<open>UnicodeDecodeError\<close>;
  \<^item> \<open>utf8_encode\<close>: the encoding of a text file opened with \<open>encoding='utf-8'\<close>;
  \<^item> \<open>py_str\<close>: \<open>str()\<close> of a value, as an f-string formats it;
  \<^item> \<open>exc_str\<close>: \<open>str(e)\<close> of an exception.
\<close>

record pylib =
  json_loads :: "pystr \<Rightarrow> pystr + json"
  json_dumps :: "json \<Rightarrow> pystr"
  utf8_decode :: "bytes \<Rightarrow> pystr option"
  utf8_encode :: "pystr \<Rightarrow> bytes"
  py_str :: "json \<Rightarrow> pystr"
  exc_str :: "error \<Rightarrow> pystr"

text \<open>Truth value testing (\<open>if not x\<close>, \<open>x or y\<close>).\<close>

fun truthy :: "json \<Rightarrow> bool" where
  "truthy JNull = False"
| "truthy (JBool b) = b"
| "truthy (JInt i) = (i \<noteq> 0)"
| "truthy (JFloat r) = (r \<noteq> 0)"
| "truthy (JStr s) = (s \<noteq> [])"
| "truthy (JArr xs) = (xs \<noteq> [])"
| "truthy (JObj kvs) = (kvs \<noteq> [])"

definition py_or :: "json \<Rightarrow> json \<Rightarrow> json" where
  "py_or a b = (if truthy a then a else b)"

text \<open>\<open>s.startswith(p)\<close>, \<open>sub in s\<close> on strings, \<open>s.strip()\<close>, \<open>s.split(c)\<close>, \<open>sep.join(xs)\<close>.\<close>

definition startswith :: "'a list \<Rightarrow> 'a list \<Rightarrow> bool" where
  "startswith s p = (take (length p) s = p)"

fun contains :: "'a list \<Rightarrow> 'a list \<Rightarrow> bool" where
  "contains sub [] = (sub = [])"
| "contains sub (c # cs) = (startswith (c # cs) sub \<or> contains sub cs)"

definition isspace :: "nat \<Rightarrow> bool" where
  "isspace c = ((9 \<le> c \<and> c \<le> 13) \<or> (28 \<le> c \<and> c \<le> 32) \<or> c = 133 \<or> c = 160
     \<or> c = 5760 \<or> (8192 \<le> c \<and> c \<le> 8202) \<or> c = 8232 \<or> c = 8233 \<or> c = 8239
     \<or> c = 8287 \<or> c = 12288)"

definition strip :: "pystr \<Rightarrow> pystr" where
  "strip s = rev (dropWhile isspace (rev (dropWhile isspace s)))"

fun split_from :: "'a \<Rightarrow> 'a list \<Rightarrow> 'a list \<Rightarrow> 'a list list" where
  "split_from sep part [] = [part]"
| "split_from sep part (c # cs) =
     (if c = sep then part # split_from sep [] cs else split_from sep (part @ [c]) cs)"

definition py_split :: "'a \<Rightarrow> 'a list \<Rightarrow> 'a list list" where
  "py_split sep s = split_from sep [] s"

fun py_join :: "'a list \<Rightarrow> 'a list list \<Rightarrow> 'a list" where
  "py_join sep [] = []"
| "py_join sep [x] = x"
| "py_join sep (x # y # ys) = x @ sep @ py_join sep (y # ys)"

text \<open>
  \<open>key in data\<close>, \<open>data[key]\<close>, \<open>data.get(key)\<close>, \<open>data.items()\<close> and \<open>len(data)\<close> for a
  string key, with the exception Python raises where the type of \<open>data\<close> has no such
  operation: membership is by key in a dict, by element in a list and by substring in a
  string; subscripting a list or a string with a string is a \<open>TypeError\<close>.
\<close>

fun py_in :: "pystr \<Rightarrow> json \<Rightarrow> error + bool" where
  "py_in k (JObj kvs) = Inr (map_of kvs k \<noteq> None)"
| "py_in k (JArr xs) = Inr (List.member xs (JStr k))"
| "py_in k (JStr s) = Inr (contains k s)"
| "py_in k JNull = Inl TypeError"
| "py_in k (JBool b) = Inl TypeError"
| "py_in k (JInt i) = Inl TypeError"
| "py_in k (JFloat r) = Inl TypeError"

fun getitem :: "json \<Rightarrow> pystr \<Rightarrow> error + json" where
  "getitem (JObj kvs) k = (case map_of kvs k of None \<Rightarrow> Inl KeyError | Some v \<Rightarrow> Inr v)"
| "getitem (JArr xs) k = Inl TypeError"
| "getitem (JStr s) k = Inl TypeError"
| "getitem JNull k = Inl TypeError"
| "getitem (JBool b) k = Inl TypeError"
| "getitem (JInt i) k = Inl TypeError"
| "getitem (JFloat r) k = Inl TypeError"

fun py_get :: "json \<Rightarrow> pystr \<Rightarrow> error + json" where
  "py_get (JObj kvs) k = Inr (case map_of kvs k of None \<Rightarrow> JNull | Some v \<Rightarrow> v)"
| "py_get (JArr xs) k = Inl AttributeError"
| "py_get (JStr s) k = Inl AttributeError"
| "py_get JNull k = Inl AttributeError"
| "py_get (JBool b) k = Inl AttributeError"
| "py_get (JInt i) k = Inl AttributeError"
| "py_get (JFloat r) k = Inl AttributeError"

fun py_items :: "json \<Rightarrow> error + (pystr \<times> json) list" where
  "py_items (JObj kvs) = Inr kvs"
| "py_items (JArr xs) = Inl AttributeError"
| "py_items (JStr s) = Inl AttributeError"
| "py_items JNull = Inl AttributeError"
| "py_items (JBool b) = Inl AttributeError"
| "py_items (JInt i) = Inl AttributeError"
| "py_items (JFloat r) = Inl AttributeError"

fun py_len :: "json \<Rightarrow> error + nat" where
  "py_len (JObj kvs) = Inr (length kvs)"
| "py_len (JArr xs) = Inr (length xs)"
| "py_len (JStr s) = Inr (length s)"
| "py_len JNull = Inl TypeError"
| "py_len (JBool b) = Inl TypeError"
| "py_len (JInt i) = Inl TypeError"
| "py_len (JFloat r) = Inl TypeError"

text \<open>How an f-string renders a value: a string as itself, anything else by \<open>str()\<close>.\<close>

fun format :: "pylib \<Rightarrow> json \<Rightarrow> pystr" where
  "format lib (JStr s) = s"
| "format lib v = py_str lib v"

section \<open>The client: \<open>librechat_invoice_extractor.py\<close>\<close>

text \<open>
  The fields of a \<open>LibreChatInvoiceExtractor\<close>. Its \<open>requests.Session\<close> is part of the
  world below. \<open>__init__\<close> strips the trailing slashes of the URL.
\<close>

record client =
  base_url :: pystr
  conversation_id :: json
  parent_message_id :: json

definition rstrip_slash :: "pystr \<Rightarrow> pystr" where
  "rstrip_slash s = rev (dropWhile (\<lambda>c. c = 47) (rev s))"

definition init_client :: "pystr \<Rightarrow> client" where
  "init_client url =
     \<lparr>base_url = rstrip_slash url, conversation_id = JNull, parent_message_id = JNull\<rparr>"

subsection \<open>The prompt\<close>

text \<open>The vendor list of the prompt: one entry per item of the dict, joined by newlines.\<close>

definition vendor_entry :: "pylib \<Rightarrow> pystr \<times> json \<Rightarrow> pystr" where
  "vendor_entry lib item = str ''- '' @ fst item @ str '': '' @ format lib (snd item)"

definition vendor_list :: "pylib \<Rightarrow> (pystr \<times> json) list \<Rightarrow> pystr" where
  "vendor_list lib items = py_join [nl] (map (vendor_entry lib) items)"

text \<open>The fixed text of the prompt before the vendor list, line by line.\<close>

definition prompt_head :: "string list" where
  \<open>prompt_head = [
     ''Extract all invoice information from the provided text and return a JSON object with the following structure. Follow these rules strictly:'',
     '''',
     ''1. Extract ONLY from the provided context - never guess or infer missing data'',
     ''2. Return null for any field not explicitly present in the text'',
     ''3. Follow the exact schema below'',
     ''4. Use ISO 8601 dates (YYYY-MM-DD)'',
     ''5. Use ISO 4217 currency codes (e.g., "EUR", "USD")'',
     ''6. Use dot as decimal separator for all numbers (e.g., 1234.56)'',
     ''7. Do not add explanations, prose, or additional fields'',
     ''8. Output JSON only'',
     '''',
     ''JSON Schema:'',
     ''{'',
     ''  "vendor": null,'',
     ''  "vendor_number": null,'',
     ''  "invoice_number": null,'',
     ''  "invoice_date": null,'',
     ''  "due_date": null,'',
     ''  "currency": null,'',
     ''  "total_amount": null,'',
     ''  "vat_amount": null,'',
     ''  "vat_rate": null,'',
     ''  "item_summary": null,'',
     ''  "line_items": ['',
     ''    {'',
     ''      "description": null,'',
     ''      "quantity": null,'',
     ''      "unit_price": null,'',
     ''      "amount": null'',
     ''    }'',
     ''  ]'',
     ''}'',
     '''',
     ''Field Definitions:'',
     ''- vendor: The name of the company/person issuing the invoice'',
     ''- vendor_number: The supplier/vendor number (Lieferantennummer) if present'',
     ''- invoice_number: The invoice reference/number'',
     ''- invoice_date: The date the invoice was issued (YYYY-MM-DD)'',
     ''- due_date: The payment due date (YYYY-MM-DD)'',
     ''- currency: ISO 4217 currency code (e.g., "EUR", "USD", "GBP")'',
     ''- total_amount: Total invoice amount including VAT (number with dot decimal)'',
     ''- vat_amount: Total VAT/tax amount (number with dot decimal)'',
     ''- vat_rate: VAT/tax rate as a percentage (e.g., 19 for 19%, 7 for 7%)'',
     ''- item_summary: Brief summary of all line items (max 15 words, e.g., "Office chairs, desks, and supplies")'',
     ''- line_items: Array of invoice line items, each with:'',
     ''  - description: Item/service description'',
     ''  - quantity: Number of units (number)'',
     ''  - unit_price: Price per unit (number with dot decimal)'',
     ''  - amount: Total for this line (number with dot decimal)'',
     '''',
     ''Return ONLY the JSON object. Do not include any markdown code blocks, explanations, or additional text.'',
     '''',
     ''If vendor numbers are not on invoices, provide them in the prompt:'',
     '''',
     ''Known vendor numbers:''  ]\<close>

definition prompt_tail :: string where
  "prompt_tail = ''If you identify the vendor name, use the corresponding vendor_number from the list above.''"

definition build_prompt :: "pystr \<Rightarrow> pystr" where
  "build_prompt vendors =
     py_join [nl] (map str prompt_head) @ [nl] @ vendors @ [nl, nl] @ str prompt_tail"

subsection \<open>Consuming the streamed response\<close>

text \<open>
  The body of the \<open>try\<close> after \<open>json.loads\<close> succeeded, on the local \<open>full_response\<close> and
  the client's fields. An exception leaves what was assigned before it.
\<close>

definition on_event :: "json \<Rightarrow> json \<times> client \<Rightarrow> error option \<times> json \<times> client" where
  "on_event data st =
     (let full_response = fst st; self = snd st in
      case py_in (str ''text'') data of
        Inl e \<Rightarrow> (Some e, full_response, self)
      | Inr has_text \<Rightarrow>
     (case (if has_text then getitem data (str ''text'') else Inr full_response) of
        Inl e \<Rightarrow> (Some e, full_response, self)
      | Inr full1 \<Rightarrow>
     (case py_in (str ''conversationId'') data of
        Inl e \<Rightarrow> (Some e, full1, self)
      | Inr has_cid \<Rightarrow>
     (case (if has_cid then getitem data (str ''conversationId'')
            else Inr (conversation_id self)) of
        Inl e \<Rightarrow> (Some e, full1, self)
      | Inr cid \<Rightarrow>
     (let self1 = self\<lparr>conversation_id := cid\<rparr> in
      case py_in (str ''messageId'') data of
        Inl e \<Rightarrow> (Some e, full1, self1)
      | Inr has_mid \<Rightarrow>
     (case (if has_mid then getitem data (str ''messageId'')
            else Inr (parent_message_id self1)) of
        Inl e \<Rightarrow> (Some e, full1, self1)
      | Inr mid \<Rightarrow> (None, full1, self1\<lparr>parent_message_id := mid\<rparr>)))))))"

text \<open>One iteration of \<open>for line in response.iter_lines()\<close>.\<close>

datatype flow = Next "json \<times> client" | Break "json \<times> client" | Raise error "json \<times> client"

definition process_line :: "pylib \<Rightarrow> bytes \<Rightarrow> json \<times> client \<Rightarrow> flow" where
  "process_line lib line st =
     (if line = [] then Next st
      else case utf8_decode lib line of
        None \<Rightarrow> Raise UnicodeDecodeError st
      | Some line_text \<Rightarrow>
          if startswith line_text (str ''data: '') then
            (let data_str = drop 6 line_text in
             if data_str = str ''[DONE]'' then Break st
             else case json_loads lib data_str of
               Inl msg \<Rightarrow> Next st
             | Inr data \<Rightarrow>
                 (case on_event data st of
                    (Some e, st') \<Rightarrow> Raise e st'
                  | (None, st') \<Rightarrow> Next st'))
          else Next st)"

fun iter_lines :: "pylib \<Rightarrow> bytes list \<Rightarrow> json \<times> client \<Rightarrow> error option \<times> json \<times> client" where
  "iter_lines lib [] st = (None, st)"
| "iter_lines lib (line # rest) st =
     (case process_line lib line st of
        Next st' \<Rightarrow> iter_lines lib rest st'
      | Break st' \<Rightarrow> (None, st')
      | Raise e st' \<Rightarrow> (Some e, st'))"

subsection \<open>The final answer\<close>

text \<open>
  The text handed to \<open>json.loads\<close>: \<open>full_response.strip()\<close>, and when that starts with
  a code fence, its lines but the first and the last (\<open>lines[1:-1]\<close>).
\<close>

definition fence :: pystr where
  "fence = str ''```''"

definition json_text :: "pystr \<Rightarrow> pystr" where
  "json_text full_response =
     (let stripped = strip full_response in
      if startswith stripped fence then py_join [nl] (butlast (tl (py_split nl stripped)))
      else stripped)"

section \<open>The world: HTTP server, file system, console\<close>

text \<open>
  The requests the client sends: a JSON body posted to a URL (login and the streamed
  ask request), and the multipart upload of one file (its name and bytes; the part is
  named \<open>file\<close>, typed \<open>application/pdf\<close>, with the form field \<open>endpoint=agents\<close>).
\<close>

datatype request = PostJson pystr json | PostFile pystr pystr bytes

text \<open>
  A response: \<open>status_code\<close>, \<open>text\<close> (also what \<open>json()\<close> parses) and the lines
  \<open>iter_lines()\<close> yields, which are delivered completely.
\<close>

record reply =
  status_code :: nat
  resp_text :: pystr
  resp_lines :: "bytes list"

text \<open>
  The server is any deterministic machine over a state of its own (which also stands
  for the session cookies); \<open>None\<close> is a request that fails with a \<open>ConnectionError\<close>.
\<close>

type_synonym 's server = "'s \<Rightarrow> request \<Rightarrow> reply option \<times> 's"

text \<open>What \<open>print\<close> writes: a constructor for each kind of line of the two files.\<close>

datatype msg =
    LoginSuccessful
  | LoginFailed nat
  | ResponseText pystr
  | FileNotFound pystr
  | FileUploaded json
  | FileUploadFailed nat
  | SendingRequest pystr
  | ExtractionFailed nat
  | ExtractionComplete
  | FailedToParse pystr
  | RawResponse pystr
  | LoadedVendors nat
  | Rule
  | BlankRule
  | Heading pystr
  | Dumped pystr
  | Field pystr json
  | Total json json
  | SavedTo pystr
  | LoggingIn pystr
  | BatchLoginFailed
  | FoundPdfs nat
  | NoPdfs
  | Processing nat nat pystr
  | BatchUploadFailed
  | BatchExtractionFailed
  | BatchSaved pystr
  | BatchError pystr
  | Count pystr nat
  | SummarySaved pystr

text \<open>
  The world a run acts on: the regular files by path, the names a directory lists (in
  the order the operating system gives them), the server's state, the requests sent so
  far with what came back, and the console. Directories, permissions and full disks
  are not modelled: a file that exists can be read, and a write succeeds.
\<close>

record 's world =
  fs :: "pystr \<rightharpoonup> bytes"
  listdir :: "pystr \<Rightarrow> pystr list"
  srv_state :: "'s"
  http_log :: "(request \<times> reply option) list"
  stdout :: "msg list"

definition print :: "msg \<Rightarrow> 's world \<Rightarrow> 's world" where
  "print m w = w\<lparr>stdout := stdout w @ [m]\<rparr>"

definition post :: "'s server \<Rightarrow> request \<Rightarrow> 's world \<Rightarrow> reply option \<times> 's world" where
  "post srv rq w =
     (fst (srv (srv_state w) rq),
      w\<lparr>srv_state := snd (srv (srv_state w) rq),
        http_log := http_log w @ [(rq, fst (srv (srv_state w) rq))]\<rparr>)"

definition write_file :: "pystr \<Rightarrow> bytes \<Rightarrow> 's world \<Rightarrow> 's world" where
  "write_file path content w = w\<lparr>fs := (fs w)(path \<mapsto> content)\<rparr>"

text \<open>\<open>json.load\<close> of a file opened as UTF-8 text, and \<open>json.dump\<close> into one.\<close>

definition json_load :: "pylib \<Rightarrow> bytes \<Rightarrow> error + json" where
  "json_load lib content =
     (case utf8_decode lib content of
        None \<Rightarrow> Inl UnicodeDecodeError
      | Some s \<Rightarrow> (case json_loads lib s of Inl m \<Rightarrow> Inl (JSONDecodeError m) | Inr v \<Rightarrow> Inr v))"

definition json_dump :: "pylib \<Rightarrow> json \<Rightarrow> bytes" where
  "json_dump lib v = utf8_encode lib (json_dumps lib v)"

text \<open>
  \<open>pathlib\<close> on normalised POSIX paths: the final component, the path with the suffix
  of its final component replaced (a suffix starts at the last dot of the name, unless
  that dot is its first or last character), and \<open>dir / name\<close>.
\<close>

definition path_name :: "pystr \<Rightarrow> pystr" where
  "path_name p = rev (takeWhile (\<lambda>c. c \<noteq> 47) (rev p))"

definition stem :: "pystr \<Rightarrow> pystr" where
  "stem name =
     (let ext = takeWhile (\<lambda>c. c \<noteq> 46) (rev name) in
      if 46 \<in> set name \<and> ext \<noteq> [] \<and> length ext + 1 < length name
      then take (length name - length ext - 1) name
      else name)"

definition with_suffix :: "pystr \<Rightarrow> pystr \<Rightarrow> pystr" where
  "with_suffix p suffix =
     take (length p - length (path_name p)) p @ stem (path_name p) @ suffix"

definition path_join :: "pystr \<Rightarrow> pystr \<Rightarrow> pystr" where
  "path_join dir name = dir @ [47] @ name"

text \<open>\<open>folder.glob("*.pdf")\<close>: the entries of the folder whose name ends in \<open>.pdf\<close>.\<close>

definition endswith :: "'a list \<Rightarrow> 'a list \<Rightarrow> bool" where
  "endswith s p = startswith (rev s) (rev p)"

definition glob_pdf :: "'s world \<Rightarrow> pystr \<Rightarrow> pystr list" where
  "glob_pdf w folder =
     map (path_join folder) (filter (\<lambda>name. endswith name (str ''.pdf'')) (listdir w folder))"

subsection \<open>\<open>login\<close>\<close>

definition login :: "'s server \<Rightarrow> client \<Rightarrow> pystr \<Rightarrow> pystr \<Rightarrow> 's world \<Rightarrow> (error + bool) \<times> 's world" where
  "login srv self email password w =
     (case post srv (PostJson (base_url self @ str ''/api/auth/login'')
             (JObj [(str ''email'', JStr email), (str ''password'', JStr password)])) w of
        (None, w1) \<Rightarrow> (Inl ConnectionError, w1)
      | (Some response, w1) \<Rightarrow>
          if status_code response = 200 then (Inr True, print LoginSuccessful w1)
          else (Inr False,
                print (ResponseText (resp_text response))
                  (print (LoginFailed (status_code response)) w1)))"

subsection \<open>\<open>upload_file\<close>\<close>

definition upload_file :: "pylib \<Rightarrow> 's server \<Rightarrow> client \<Rightarrow> pystr \<Rightarrow> 's world \<Rightarrow> (error + json) \<times> 's world" where
  "upload_file lib srv self file_path w =
     (case fs w file_path of
        None \<Rightarrow> (Inr JNull, print (FileNotFound file_path) w)
      | Some content \<Rightarrow>
     (case post srv (PostFile (base_url self @ str ''/api/files/upload'')
             (path_name file_path) content) w of
        (None, w1) \<Rightarrow> (Inl ConnectionError, w1)
      | (Some response, w1) \<Rightarrow>
          if status_code response = 200 then
            (case json_loads lib (resp_text response) of
               Inl m \<Rightarrow> (Inl (JSONDecodeError m), w1)
             | Inr file_data \<Rightarrow>
                 (case py_get file_data (str ''filename'') of
                    Inl e \<Rightarrow> (Inl e, w1)
                  | Inr filename \<Rightarrow> (Inr file_data, print (FileUploaded filename) w1)))
          else (Inr JNull,
                print (ResponseText (resp_text response))
                  (print (FileUploadFailed (status_code response)) w1))))"

subsection \<open>\<open>extract_invoice\<close>\<close>

definition nil_uuid :: pystr where
  "nil_uuid = str ''00000000-0000-0000-0000-000000000000''"

definition default_model :: pystr where
  "default_model = str ''qwen2.5-3b-instruct-invoice-extractor-gtx1650''"

definition file_ref :: "json \<Rightarrow> error + json" where
  "file_ref file_data =
     (case file_data of
        JObj kvs \<Rightarrow>
          Inr (JObj (map (\<lambda>k. (str k, case map_of kvs (str k) of None \<Rightarrow> JNull | Some v \<Rightarrow> v))
                 [''file_id'', ''filepath'', ''filename'', ''type'', ''height'', ''width'']))
      | _ \<Rightarrow> Inl AttributeError)"

definition conversation_arg :: "pystr option \<Rightarrow> json" where
  "conversation_arg arg =
     (case arg of
        None \<Rightarrow> JStr (str ''new'')
      | Some s \<Rightarrow> py_or (JStr s) (JStr (str ''new'')))"

definition payload :: "pystr \<Rightarrow> pystr \<Rightarrow> pystr option \<Rightarrow> client \<Rightarrow> json \<Rightarrow> json" where
  "payload model prompt conversation_id_arg self fref =
     JObj [(str ''endpoint'', JStr (str ''agents'')),
           (str ''model'', JStr model),
           (str ''text'', JStr prompt),
           (str ''conversationId'', conversation_arg conversation_id_arg),
           (str ''parentMessageId'', py_or (parent_message_id self) (JStr nil_uuid)),
           (str ''files'', JArr [fref])]"

text \<open>
  The parse of the final answer. \<open>full_response\<close> is whatever the last \<open>text\<close> field
  held: \<open>strip\<close> exists on a string only.
\<close>

definition parse_answer :: "pylib \<Rightarrow> json \<Rightarrow> 's world \<Rightarrow> (error + json) \<times> 's world" where
  "parse_answer lib full_response w =
     (case full_response of
        JStr s \<Rightarrow>
          (case json_loads lib (json_text s) of
             Inr invoice_data \<Rightarrow> (Inr invoice_data, w)
           | Inl e \<Rightarrow> (Inr JNull, print (RawResponse s) (print (FailedToParse e) w)))
      | _ \<Rightarrow> (Inl AttributeError, w))"

definition extract_invoice ::
  "pylib \<Rightarrow> 's server \<Rightarrow> json \<Rightarrow> json \<Rightarrow> pystr \<Rightarrow> pystr option \<Rightarrow> client \<Rightarrow> 's world
     \<Rightarrow> (error + json) \<times> client \<times> 's world" where
  "extract_invoice lib srv file_data vendor_mappings model conversation_id_arg self w =
     (case py_items vendor_mappings of
        Inl e \<Rightarrow> (Inl e, self, w)
      | Inr items \<Rightarrow>
     (case file_ref file_data of
        Inl e \<Rightarrow> (Inl e, self, w)
      | Inr fref \<Rightarrow>
     (case post srv (PostJson (base_url self @ str ''/api/ask/agents'')
             (payload model (build_prompt (vendor_list lib items)) conversation_id_arg self fref))
             (print (SendingRequest model) w) of
        (None, w1) \<Rightarrow> (Inl ConnectionError, self, w1)
      | (Some response, w1) \<Rightarrow>
          if status_code response \<noteq> 200 then
            (Inr JNull, self,
             print (ResponseText (resp_text response))
               (print (ExtractionFailed (status_code response)) w1))
          else
            (case iter_lines lib (resp_lines response) (JStr [], self) of
               (Some e, full_response, self1) \<Rightarrow> (Inl e, self1, w1)
             | (None, full_response, self1) \<Rightarrow>
                 (case parse_answer lib full_response (print ExtractionComplete w1) of
                    (r, w2) \<Rightarrow> (r, self1, w2))))))"

subsection \<open>\<open>load_vendor_mappings\<close> and \<open>main\<close>\<close>

definition default_vendors :: json where
  "default_vendors =
     JObj [(str ''ACME Corp'', JStr (str ''V12345'')),
           (str ''Global Supplies GmbH'', JStr (str ''V67890'')),
           (str ''Tech Solutions Ltd'', JStr (str ''V24680'')),
           (str ''Office Depot'', JStr (str ''V13579'')),
           (str ''Staples Inc'', JStr (str ''V98765''))]"

definition load_vendor_mappings :: "pylib \<Rightarrow> pystr option \<Rightarrow> 's world \<Rightarrow> error + json" where
  "load_vendor_mappings lib vendors_file w =
     (case vendors_file of
        None \<Rightarrow> Inr default_vendors
      | Some path \<Rightarrow>
          if path = [] then Inr default_vendors
          else (case fs w path of
                  None \<Rightarrow> Inr default_vendors
                | Some content \<Rightarrow> json_load lib content))"

text \<open>The parsed command line of the single-file tool (\<open>None\<close>: option and variable unset).\<close>

record args =
  arg_pdf :: pystr
  arg_email :: "pystr option"
  arg_password :: "pystr option"
  arg_url :: pystr
  arg_model :: pystr
  arg_vendors :: "pystr option"
  arg_output :: "pystr option"

definition given :: "pystr option \<Rightarrow> bool" where
  "given a = (case a of None \<Rightarrow> False | Some s \<Rightarrow> s \<noteq> [])"

text \<open>
  The display and the summary lines of \<open>main\<close>: the first \<open>invoice_data.get\<close> raises when
  the answer is not a dict.
\<close>

definition show_invoice :: "pylib \<Rightarrow> json \<Rightarrow> 's world \<Rightarrow> error option \<times> 's world" where
  "show_invoice lib invoice_data w =
     (let w1 = print Rule (print (Dumped (json_dumps lib invoice_data))
                 (print Rule (print (Heading (str ''EXTRACTED INVOICE DATA'')) (print BlankRule w))))
      in case invoice_data of
        JObj kvs \<Rightarrow>
          (let f = (\<lambda>k. case map_of kvs (str k) of None \<Rightarrow> JNull | Some v \<Rightarrow> v) in
           (None,
            print (Field (str ''Summary'') (f ''item_summary''))
              (print (Total (f ''total_amount'') (f ''currency''))
                (print (Field (str ''Date'') (f ''invoice_date''))
                  (print (Field (str ''Invoice #'') (f ''invoice_number''))
                    (print (Field (str ''Vendor Number'') (f ''vendor_number''))
                      (print (Field (str ''Vendor'') (f ''vendor'')) w1)))))))
      | _ \<Rightarrow> (Some AttributeError, w1))"

definition output_path_of :: "args \<Rightarrow> pystr" where
  "output_path_of a =
     (if given (arg_output a) then the (arg_output a)
      else with_suffix (arg_pdf a) (str ''.json''))"


section \<open>The batch driver: \<open>examples/batch_processing.py\<close>\<close>

definition success_entry :: "pystr \<Rightarrow> json \<Rightarrow> json" where
  "success_entry name invoice_data =
     JObj [(str ''file'', JStr name), (str ''status'', JStr (str ''success'')),
           (str ''data'', invoice_data)]"

definition error_entry :: "pylib \<Rightarrow> pystr \<Rightarrow> error \<Rightarrow> json" where
  "error_entry lib name e =
     JObj [(str ''file'', JStr name), (str ''status'', JStr (str ''error'')),
           (str ''error'', JStr (exc_str lib e))]"

text \<open>The \<open>except Exception\<close> branch of the loop body.\<close>

definition record_error ::
  "pylib \<Rightarrow> pystr \<Rightarrow> error \<Rightarrow> json list \<Rightarrow> client \<Rightarrow> 's world \<Rightarrow> json list \<times> client \<times> 's world" where
  "record_error lib pdf_path e results client w =
     (results @ [error_entry lib (path_name pdf_path) e], client,
      print (BatchError (exc_str lib e)) w)"

text \<open>
  The lines printed after a file is saved; \<open>invoice_data.get\<close> raises, inside the
  \<open>try\<close>, when the answer is not a dict.
\<close>

definition show_saved :: "json \<Rightarrow> 's world \<Rightarrow> error option \<times> 's world" where
  "show_saved invoice_data w =
     (case invoice_data of
        JObj kvs \<Rightarrow>
          (let f = (\<lambda>k. case map_of kvs (str k) of None \<Rightarrow> JNull | Some v \<Rightarrow> v) in
           (None,
            print (Total (f ''total_amount'') (f ''currency''))
              (print (Field (str ''  - Invoice'') (f ''invoice_number''))
                (print (Field (str ''  - Vendor'') (f ''vendor'')) w))))
      | _ \<Rightarrow> (Some AttributeError, w))"

text \<open>The body of \<open>for i, pdf_path in enumerate(pdfs, 1)\<close>, on \<open>results\<close>, client and world.\<close>

definition process_pdf ::
  "pylib \<Rightarrow> 's server \<Rightarrow> json \<Rightarrow> pystr \<Rightarrow> nat \<Rightarrow> nat \<Rightarrow> pystr
     \<Rightarrow> json list \<times> client \<times> 's world \<Rightarrow> json list \<times> client \<times> 's world" where
  "process_pdf lib srv vendors output_dir n i pdf_path st =
     (let results = fst st; client = fst (snd st); w = snd (snd st) in
      case upload_file lib srv client pdf_path (print (Processing i n (path_name pdf_path)) w) of
        (Inl e, w1) \<Rightarrow> record_error lib pdf_path e results client w1
      | (Inr file_data, w1) \<Rightarrow>
          if \<not> truthy file_data then (results, client, print BatchUploadFailed w1)
          else
     (case extract_invoice lib srv file_data vendors default_model None client w1 of
        (Inl e, client1, w2) \<Rightarrow> record_error lib pdf_path e results client1 w2
      | (Inr invoice_data, client1, w2) \<Rightarrow>
          if \<not> truthy invoice_data then (results, client1, print BatchExtractionFailed w2)
          else
     (let output_path = path_join output_dir (path_name (with_suffix pdf_path (str ''.json'')))
      in case show_saved invoice_data
           (print (BatchSaved output_path)
              (write_file output_path (json_dump lib invoice_data) w2)) of
        (Some e, w3) \<Rightarrow> record_error lib pdf_path e results client1 w3
      | (None, w3) \<Rightarrow>
          (results @ [success_entry (path_name pdf_path) invoice_data], client1, w3))))"

fun process_pdfs ::
  "pylib \<Rightarrow> 's server \<Rightarrow> json \<Rightarrow> pystr \<Rightarrow> nat \<Rightarrow> nat \<Rightarrow> pystr list
     \<Rightarrow> json list \<times> client \<times> 's world \<Rightarrow> json list \<times> client \<times> 's world" where
  "process_pdfs lib srv vendors output_dir n i [] st = st"
| "process_pdfs lib srv vendors output_dir n i (pdf_path # rest) st =
     process_pdfs lib srv vendors output_dir n (Suc i) rest
       (process_pdf lib srv vendors output_dir n i pdf_path st)"

definition is_success :: "json \<Rightarrow> bool" where
  "is_success r = (py_get r (str ''status'') = Inr (JStr (str ''success'')))"

text \<open>The summary: the counts printed and \<open>batch_summary.json\<close> written.\<close>

definition write_summary :: "pylib \<Rightarrow> pystr \<Rightarrow> json list \<Rightarrow> 's world \<Rightarrow> 's world" where
  "write_summary lib output_dir results w =
     (let successful = length (filter is_success results);
          failed = length results - successful;
          summary_path = path_join output_dir (str ''batch_summary.json'')
      in print (SummarySaved summary_path)
           (write_file summary_path (json_dump lib (JArr results))
             (print Rule
               (print (Count (str ''Failed'') failed)
                 (print (Count (str ''Success'') successful)
                   (print (Count (str ''Total'') (length results))
                     (print Rule
                       (print (Heading (str ''BATCH PROCESSING COMPLETE''))
                         (print BlankRule w)))))))))"

definition process_invoice_folder ::
  "pylib \<Rightarrow> 's server \<Rightarrow> pystr \<Rightarrow> pystr \<Rightarrow> pystr \<Rightarrow> pystr \<Rightarrow> pystr \<Rightarrow> pystr option
     \<Rightarrow> 's world \<Rightarrow> (error + unit) \<times> 's world" where
  "process_invoice_folder lib srv folder_path vendors_file librechat_url email password
       output_folder w =
     (let client = init_client librechat_url in
      case login srv client email password (print (LoggingIn librechat_url) w) of
        (Inl e, w1) \<Rightarrow> (Inl e, w1)
      | (Inr False, w1) \<Rightarrow> (Inr (), print BatchLoginFailed w1)
      | (Inr True, w1) \<Rightarrow>
     (case fs w1 vendors_file of
        None \<Rightarrow> (Inl FileNotFoundError, w1)
      | Some content \<Rightarrow>
     (case json_load lib content of
        Inl e \<Rightarrow> (Inl e, w1)
      | Inr vendors \<Rightarrow>
     (case py_len vendors of
        Inl e \<Rightarrow> (Inl e, w1)
      | Inr k \<Rightarrow>
     (let w2 = print (LoadedVendors k) w1;
          pdfs = glob_pdf w2 folder_path;
          w3 = print (FoundPdfs (length pdfs)) w2
      in if pdfs = [] then (Inr (), print NoPdfs w3)
         else
     (let output_dir = (if given output_folder then the output_folder else folder_path)
      in if fs w3 output_dir \<noteq> None then (Inl FileExistsError, w3)
         else
     (case process_pdfs lib srv vendors output_dir (length pdfs) 1 pdfs ([], client, w3) of
        (results, client1, w4) \<Rightarrow> (Inr (), write_summary lib output_dir results w4))))))))"

subsection \<open>A sequence of calls on one client\<close>


section \<open>The specification's view of a stream\<close>

text \<open>
  The terms the specification uses, defined from its words: the \<open>data: [DONE]\<close> line,
  the JSON event a \<open>data: \<close> line carries, a field of an event, and the lines before the
  first \<open>data: [DONE]\<close>.
\<close>

definition is_done :: "pylib \<Rightarrow> bytes \<Rightarrow> bool" where
  "is_done lib line = (line \<noteq> [] \<and> utf8_decode lib line = Some (str ''data: [DONE]''))"

definition event_of :: "pylib \<Rightarrow> bytes \<Rightarrow> json option" where
  "event_of lib line =
     (if line = [] then None
      else case utf8_decode lib line of
        None \<Rightarrow> None
      | Some t \<Rightarrow>
          if startswith t (str ''data: '') \<and> drop 6 t \<noteq> str ''[DONE]'' then
            (case json_loads lib (drop 6 t) of Inl m \<Rightarrow> None | Inr d \<Rightarrow> Some d)
          else None)"

definition field :: "string \<Rightarrow> json \<Rightarrow> json option" where
  "field k d = (case d of JObj kvs \<Rightarrow> map_of kvs (str k) | _ \<Rightarrow> None)"













section \<open>The specification's view of the final answer\<close>

text \<open>
  Fence stripping as the specification states it, on the final answer text itself:
  with a leading fence, the lines but the first and the last; otherwise the text.
\<close>

definition stated_json_text :: "pystr \<Rightarrow> pystr" where
  "stated_json_text t =
     (if startswith t fence then py_join [nl] (butlast (tl (py_split nl t))) else t)"

section \<open>The specification's view of the vendor file\<close>



section \<open>A library instance, a scripted server and worlds for the examples\<close>

text \<open>
  The closed examples below need the library functions at concrete arguments. Each is
  given here on the arguments the examples apply it to, with Python's result there:
  \<open>json.loads\<close> and \<open>json.dumps\<close> by table, the UTF-8 codec on ASCII, \<open>str()\<close> on
  \<open>None\<close>, booleans and strings, and \<open>str(e)\<close> on a \<open>JSONDecodeError\<close>.
\<close>

definition bsl :: string where
  "bsl = [CHR 0x5C]"

definition text_lines :: "string list \<Rightarrow> pystr" where
  "text_lines ls = py_join [nl] (map str ls)"

definition ex_invoice :: json where
  "ex_invoice = JObj [(str ''vendor'', JStr (str ''ACME''))]"

definition ex_file_data :: json where
  "ex_file_data =
     JObj [(str ''file_id'', JStr (str ''f1'')), (str ''filename'', JStr (str ''invoice.pdf''))]"

definition ex_vendors :: json where
  "ex_vendors = JObj [(str ''ACME Corp'', JStr (str ''V1''))]"

definition answer_line :: bytes where
  \<open>answer_line = ''data: {"text": "{'' @ bsl @ ''"vendor'' @ bsl @ ''": '' @ bsl @ ''"ACME''
     @ bsl @ ''"}", "messageId": "m1"}''\<close>

definition loads_ex :: "pystr \<Rightarrow> pystr + json" where
  \<open>loads_ex s =
     (if s = str ''5'' then Inr (JInt 5)
      else if s = str ''{"text": "a"}'' then Inr (JObj [(str ''text'', JStr (str ''a''))])
      else if s = str ''{"text": "ab"}'' then Inr (JObj [(str ''text'', JStr (str ''ab''))])
      else if s = str ''{"text": "zzz"}'' then Inr (JObj [(str ''text'', JStr (str ''zzz''))])
      else if s = str ''{"text": "not json"}'' then
        Inr (JObj [(str ''text'', JStr (str ''not json''))])
      else if s = str ''{"messageId": ""}'' then Inr (JObj [(str ''messageId'', JStr [])])
      else if s = str ''{"messageId": "m1"}'' then
        Inr (JObj [(str ''messageId'', JStr (str ''m1''))])
      else if s = drop 6 (str answer_line) then
        Inr (JObj [(str ''text'', JStr (str ''{"vendor": "ACME"}'')),
                   (str ''messageId'', JStr (str ''m1''))])
      else if s = str ''{"vendor": "ACME"}'' then Inr ex_invoice
      else if s = str ''{"file_id": "f1", "filename": "invoice.pdf"}'' then Inr ex_file_data
      else if s = str ''{"ACME Corp": "V1"}'' then Inr ex_vendors
      else if s = str ''{oops'' then
        Inl (str ''Expecting property name enclosed in double quotes: line 1 column 2 (char 1)'')
      else Inl (str ''Expecting value: line 1 column 1 (char 0)''))\<close>

definition dumps_ex :: "json \<Rightarrow> pystr" where
  \<open>dumps_ex v =
     (if v = ex_invoice then text_lines [''{'', ''  "vendor": "ACME"'', ''}'']
      else if v = JArr [success_entry (str ''a.pdf'') ex_invoice,
                        success_entry (str ''c.pdf'') ex_invoice] then
        text_lines [''['',
          ''  {'', ''    "file": "a.pdf",'', ''    "status": "success",'', ''    "data": {'',
          ''      "vendor": "ACME"'', ''    }'', ''  },'',
          ''  {'', ''    "file": "c.pdf",'', ''    "status": "success",'', ''    "data": {'',
          ''      "vendor": "ACME"'', ''    }'', ''  }'',
          '']'']
      else if v = JArr [] then str ''[]''
      else [])\<close>

definition decode_ascii :: "bytes \<Rightarrow> pystr option" where
  "decode_ascii b = (if list_all (\<lambda>c. of_char c < (128::nat)) b then Some (map of_char b) else None)"

definition encode_ascii :: "pystr \<Rightarrow> bytes" where
  "encode_ascii s = map char_of s"

definition py_str_ex :: "json \<Rightarrow> pystr" where
  "py_str_ex v =
     (case v of
        JBool b \<Rightarrow> (if b then str ''True'' else str ''False'')
      | JStr s \<Rightarrow> s
      | _ \<Rightarrow> str ''None'')"

definition exc_str_ex :: "error \<Rightarrow> pystr" where
  "exc_str_ex e = (case e of JSONDecodeError m \<Rightarrow> m | _ \<Rightarrow> [])"

definition lib_ex :: pylib where
  "lib_ex = \<lparr>json_loads = loads_ex, json_dumps = dumps_ex, utf8_decode = decode_ascii,
     utf8_encode = encode_ascii, py_str = py_str_ex, exc_str = exc_str_ex\<rparr>"

text \<open>A server that answers the requests, whatever they are, from a list of replies.\<close>

definition scripted :: "reply option list server" where
  "scripted s rq = (case s of [] \<Rightarrow> (None, []) | r # rest \<Rightarrow> (r, rest))"

definition reply_of :: "nat \<Rightarrow> string \<Rightarrow> bytes list \<Rightarrow> reply option" where
  "reply_of code body lines =
     Some \<lparr>status_code = code, resp_text = str body, resp_lines = lines\<rparr>"

definition world_ex ::
  "(pystr \<times> bytes) list \<Rightarrow> pystr list \<Rightarrow> reply option list \<Rightarrow> reply option list world" where
  "world_ex files names script =
     \<lparr>fs = map_of files, listdir = (\<lambda>d. names), srv_state = script, http_log = [],
      stdout = []\<rparr>"

definition file_reply :: "reply option" where
  \<open>file_reply = reply_of 200 ''{"file_id": "f1", "filename": "invoice.pdf"}'' []\<close>

definition answer_reply :: "reply option" where
  "answer_reply = reply_of 200 [] [answer_line, ''data: [DONE]'']"

definition login_ok :: "reply option" where
  "login_ok = reply_of 200 ''{}'' []"



definition failed_reply :: "reply option" where
  "failed_reply = reply_of 500 ''Internal Server Error'' []"

definition not_json_reply :: "reply option" where
  \<open>not_json_reply = reply_of 200 [] [''data: {"text": "not json"}'', ''data: [DONE]'']\<close>

definition ex_args :: args where
  "ex_args = \<lparr>arg_pdf = str ''in/a.pdf'', arg_email = Some (str ''u@example.com''),
     arg_password = Some (str ''secret''), arg_url = str ''http://localhost:3080/'',
     arg_model = default_model, arg_vendors = Some (str ''missing.json''),
     arg_output = None\<rparr>"

definition ex_files :: "(pystr \<times> bytes) list" where
  \<open>ex_files = [(str ''in/a.pdf'', ''%PDF-a''), (str ''in/b.pdf'', ''%PDF-b''),
     (str ''in/c.pdf'', ''%PDF-c''), (str ''vendors.json'', ''{"ACME Corp": "V1"}'')]\<close>

text \<open>A batch run over the folder \<open>in\<close>, given the names it lists and the server's replies.\<close>

definition batch_ex ::
  "pystr list \<Rightarrow> reply option list \<Rightarrow> (error + unit) \<times> reply option list world" where
  "batch_ex names script =
     process_invoice_folder lib_ex scripted (str ''in'') (str ''vendors.json'')
       (str ''http://localhost:3080'') (str ''u@example.com'') (str ''secret'') None
       (world_ex ex_files names script)"

section \<open>Properties of the stream loop\<close>









lemma event_of_done: "is_done lib l \<Longrightarrow> event_of lib l = None"
  by (auto simp: is_done_def event_of_def)















section \<open>Claims about the stream loop\<close>






section \<open>Properties of \<open>split\<close> and \<open>join\<close>\<close>

lemma split_from_part: "split_from sep (p @ q) s = (p @ hd (split_from sep q s)) # tl (split_from sep q s)"
  by (induction s arbitrary: q) auto

lemma py_split_Nil: "py_split sep [] = [[]]"
  by (simp add: py_split_def)

lemma py_split_Cons:
  "py_split sep (c # cs) =
     (if c = sep then [] # py_split sep cs
      else (c # hd (py_split sep cs)) # tl (py_split sep cs))"
  using split_from_part [of sep "[c]" "[]" cs] by (simp add: py_split_def)

lemma py_split_nonempty: "py_split sep s \<noteq> []"
  by (induction s) (auto simp: py_split_Nil py_split_Cons)

lemma py_split_no_sep: "sep \<notin> set s \<Longrightarrow> py_split sep s = [s]"
  by (induction s) (auto simp: py_split_Nil py_split_Cons)

lemma py_split_append:
  "py_split sep (xs @ sep # ys) = py_split sep xs @ py_split sep ys"
proof (induction xs)
  case Nil
  show ?case by (simp add: py_split_Nil py_split_Cons)
next
  case (Cons c cs)
  show ?case
  proof (cases "c = sep")
    case True
    with Cons show ?thesis by (simp add: py_split_Cons)
  next
    case False
    with Cons py_split_nonempty [of sep cs] show ?thesis by (simp add: py_split_Cons)
  qed
qed

lemma py_join_Cons: "py_join sep ((c # x) # xs) = c # py_join sep (x # xs)"
  by (cases xs) auto

lemma py_join_split: "py_join [sep] (py_split sep s) = s"
proof (induction s)
  case Nil
  show ?case by (simp add: py_split_Nil)
next
  case (Cons c cs)
  show ?case
  proof (cases "c = sep")
    case True
    with Cons py_split_nonempty [of sep cs] show ?thesis
      by (cases "py_split sep cs") (auto simp: py_split_Cons)
  next
    case False
    with Cons py_split_nonempty [of sep cs] show ?thesis
      by (simp add: py_join_Cons py_split_Cons)
  qed
qed

lemma py_split_join:
  "items \<noteq> [] \<Longrightarrow> \<forall>x\<in>set items. sep \<notin> set x \<Longrightarrow> py_split sep (py_join [sep] items) = items"
proof (induction "[sep]" items rule: py_join.induct)
  case 1
  then show ?case by simp
next
  case (2 x)
  then show ?case by (simp add: py_split_no_sep)
next
  case (3 x y ys)
  then show ?case by (simp add: py_split_append py_split_no_sep)
qed

lemma drop_first_last_line:
  assumes "sep \<notin> set first" and "sep \<notin> set lst"
  shows "py_join [sep] (butlast (tl (py_split sep (first @ sep # body @ sep # lst)))) = body"
proof -
  have "py_split sep (first @ sep # body @ sep # lst) = first # py_split sep body @ [lst]"
    using assms by (simp add: py_split_append py_split_no_sep)
  then show ?thesis
    by (simp add: butlast_append py_join_split)
qed

lemma startswith_append: "startswith s p \<Longrightarrow> startswith (s @ r) p"
proof -
  assume a: "startswith s p"
  then have "length (take (length p) s) = length p"
    by (simp add: startswith_def)
  then have "length p \<le> length s" by simp
  with a show ?thesis by (simp add: startswith_def)
qed

lemma newline_char: "of_char c = nl \<Longrightarrow> c = CHR 0x0A"
proof -
  assume "of_char c = nl"
  then have "(of_char c :: nat) = of_char (CHR 0x0A)" by (simp add: nl_def)
  then show ?thesis by (simp only: of_char_eq_iff)
qed

lemma str_no_newline:
  assumes "CHR 0x0A \<notin> set l"
  shows "nl \<notin> set (str l)"
proof
  assume "nl \<in> set (str l)"
  then obtain c where "c \<in> set l" "of_char c = nl" by auto
  with newline_char assms show False by blast
qed

lemma prompt_head_nonempty: "prompt_head \<noteq> []"
  by (simp add: prompt_head_def)

lemma prompt_head_chars: "\<forall>l\<in>set prompt_head. CHR 0x0A \<notin> set l"
  by (simp add: prompt_head_def)

lemma prompt_head_lines: "\<forall>l\<in>set (map str prompt_head). nl \<notin> set l"
  using prompt_head_chars str_no_newline by auto

lemma prompt_tail_line: "nl \<notin> set (str prompt_tail)"
  by (rule str_no_newline) (simp add: prompt_tail_def)

section \<open>Claims about the answer text and the prompt\<close>

text \<open>
  C4, as stated, fails on both halves, because the code strips the answer before it
  looks for the fence. An answer with white space before its opening fence does not
  begin with the marker, yet it is not passed on unchanged: it is stripped and loses
  its fence lines. And an unfenced answer with white space around it reaches the parser
  without that white space.
\<close>

theorem fence_stripping_counterexample:
  \<open>\<not> startswith (str '' ```json'' @ [nl] @ str ''{"a": 1}'' @ [nl] @ str ''```'') fence
   \<and> json_text (str '' ```json'' @ [nl] @ str ''{"a": 1}'' @ [nl] @ str ''```'')
     = str ''{"a": 1}''
   \<and> stated_json_text (str '' ```json'' @ [nl] @ str ''{"a": 1}'' @ [nl] @ str ''```'')
     = str '' ```json'' @ [nl] @ str ''{"a": 1}'' @ [nl] @ str ''```''
   \<and> json_text (str '' {"a": 1}'' @ [nl]) = str ''{"a": 1}''
   \<and> stated_json_text (str '' {"a": 1}'' @ [nl]) = str '' {"a": 1}'' @ [nl]\<close>
  by (simp add: json_text_def stated_json_text_def strip_def isspace_def fence_def nl_def
      startswith_def py_split_def)

text \<open>
  C4, amended. The text handed to \<open>json.loads\<close> is the stripped answer: unchanged when
  it does not start with a fence, and otherwise its lines but the first and the last.
  So for a stripped answer made of a fence line, a body and a last line, the body is
  what is parsed; a fenced answer of one line leaves the empty text; and the value
  parsed from that text is the result of the call.
\<close>

theorem fence_stripping:
  "json_text full = stated_json_text (strip full)
   \<and> (\<not> startswith (strip full) fence \<longrightarrow> json_text full = strip full)
   \<and> (strip full = first @ nl # body @ nl # lst \<and> startswith first fence
        \<and> nl \<notin> set first \<and> nl \<notin> set lst \<longrightarrow> json_text full = body)
   \<and> (startswith (strip full) fence \<and> nl \<notin> set (strip full) \<longrightarrow> json_text full = [])
   \<and> (json_loads lib (json_text full) = Inr v \<longrightarrow> parse_answer lib (JStr full) w = (Inr v, w))"
proof -
  have a: "json_text full = stated_json_text (strip full)"
    by (simp add: json_text_def stated_json_text_def Let_def)
  have b: "\<not> startswith (strip full) fence \<longrightarrow> json_text full = strip full"
    by (simp add: json_text_def Let_def)
  have c: "json_text full = body"
    if h: "strip full = first @ nl # body @ nl # lst" "startswith first fence"
      "nl \<notin> set first" "nl \<notin> set lst"
  proof -
    have "startswith (strip full) fence"
      unfolding h(1) using h(2) by (rule startswith_append)
    then show ?thesis
      using h(1) drop_first_last_line [OF h(3,4)] by (simp add: json_text_def Let_def)
  qed
  have d: "startswith (strip full) fence \<and> nl \<notin> set (strip full) \<longrightarrow> json_text full = []"
    by (simp add: json_text_def Let_def py_split_no_sep)
  have e: "json_loads lib (json_text full) = Inr v \<longrightarrow> parse_answer lib (JStr full) w = (Inr v, w)"
    by (simp add: parse_answer_def)
  from a b c d e show ?thesis by blast
qed

theorem fence_stripping_witness:
  \<open>strip (str ''  ```json'' @ [nl] @ str ''{"vendor": "ACME"}'' @ [nl] @ str ''``` '' @ [nl])
     = str ''```json'' @ nl # str ''{"vendor": "ACME"}'' @ nl # str ''```''
   \<and> json_text (str ''  ```json'' @ [nl] @ str ''{"vendor": "ACME"}'' @ [nl] @ str ''``` '' @ [nl])
     = str ''{"vendor": "ACME"}''
   \<and> parse_answer lib_ex
       (JStr (str ''  ```json'' @ [nl] @ str ''{"vendor": "ACME"}'' @ [nl] @ str ''``` '' @ [nl]))
       (world_ex [] [] []) = (Inr ex_invoice, world_ex [] [] [])
   \<and> json_text (str ''{"vendor": "ACME"}'' @ [nl]) = str ''{"vendor": "ACME"}''
   \<and> json_text (str ''```{}```'') = []\<close>
proof -
  let ?full = \<open>str ''  ```json'' @ [nl] @ str ''{"vendor": "ACME"}'' @ [nl] @ str ''``` '' @ [nl]\<close>
  have s: \<open>strip ?full = str ''```json'' @ nl # str ''{"vendor": "ACME"}'' @ nl # str ''```''\<close>
    by (simp add: strip_def isspace_def nl_def)
  have f: "startswith (str ''```json'') fence" "nl \<notin> set (str ''```json'')"
    "nl \<notin> set (str ''```'')"
    by (simp_all add: startswith_def fence_def nl_def)
  have j: \<open>json_text ?full = str ''{"vendor": "ACME"}''\<close>
    using fence_stripping [of ?full "str ''```json''" \<open>str ''{"vendor": "ACME"}''\<close> "str ''```''"]
      s f by blast
  have l: \<open>json_loads lib_ex (json_text ?full) = Inr ex_invoice\<close>
    unfolding j by (simp add: lib_ex_def loads_ex_def answer_line_def bsl_def)
  have p: "parse_answer lib_ex (JStr ?full) (world_ex [] [] []) = (Inr ex_invoice, world_ex [] [] [])"
    using fence_stripping [of ?full _ _ _ lib_ex ex_invoice "world_ex [] [] []"] l by blast
  have s2: \<open>strip (str ''{"vendor": "ACME"}'' @ [nl]) = str ''{"vendor": "ACME"}''\<close>
    by (simp add: strip_def isspace_def nl_def)
  have \<open>\<not> startswith (strip (str ''{"vendor": "ACME"}'' @ [nl])) fence\<close>
    unfolding s2 by (simp add: startswith_def fence_def)
  then have u: \<open>json_text (str ''{"vendor": "ACME"}'' @ [nl]) = str ''{"vendor": "ACME"}''\<close>
    using fence_stripping [of \<open>str ''{"vendor": "ACME"}'' @ [nl]\<close>] s2 by metis
  have s3: "strip (str ''```{}```'') = str ''```{}```''"
    by (simp add: strip_def isspace_def)
  have "startswith (strip (str ''```{}```'')) fence \<and> nl \<notin> set (strip (str ''```{}```''))"
    unfolding s3 by (simp add: startswith_def fence_def nl_def)
  then have o: "json_text (str ''```{}```'') = []"
    using fence_stripping [of "str ''```{}```''"] by blast
  from s j p u o show ?thesis by blast
qed

text \<open>
  C9, as stated, fails for a vendor name (or number) that contains a newline, which a
  JSON vendor file can hold: the one mapping then takes two lines of the block. The
  empty mapping renders as the empty text.
\<close>

theorem vendor_list_counterexample:
  "py_split nl (vendor_list lib_ex [(str ''A'' @ [nl] @ str ''B'', JStr (str ''V1''))])
     = [str ''- A'', str ''B: V1'']"
  by (simp add: vendor_list_def vendor_entry_def nl_def py_split_def)

text \<open>
  C9, amended. For a vendor mapping from names to numbers (strings) none of which
  contains a newline, the lines of the vendor list are exactly the entries
  \<open>- name: number\<close>, one per mapping and in the mapping's order, and the lines of the
  prompt are the fixed head, these entries, an empty line and the fixed last line. For
  the empty mapping the vendor list is the empty text.
\<close>

theorem vendor_list_lines:
  assumes "\<forall>item\<in>set vm. nl \<notin> set (fst item) \<and> nl \<notin> set (snd item)"
  shows "(vm \<noteq> [] \<longrightarrow>
       py_split nl (vendor_list lib (map (\<lambda>item. (fst item, JStr (snd item))) vm))
         = map (\<lambda>item. str ''- '' @ fst item @ str '': '' @ snd item) vm
       \<and> py_split nl (build_prompt (vendor_list lib (map (\<lambda>item. (fst item, JStr (snd item))) vm)))
         = map str prompt_head @ map (\<lambda>item. str ''- '' @ fst item @ str '': '' @ snd item) vm
             @ [[], str prompt_tail])
     \<and> vendor_list lib [] = []"
proof -
  let ?entries = "map (\<lambda>item. str ''- '' @ fst item @ str '': '' @ snd item) vm"
  let ?items = "map (\<lambda>item. (fst item, JStr (snd item))) vm"
  have e: "map (vendor_entry lib) ?items = ?entries"
    by (simp add: vendor_entry_def)
  have free: "\<forall>x\<in>set ?entries. nl \<notin> set x"
    using assms by (auto simp: nl_def)
  have v: "py_split nl (vendor_list lib ?items) = ?entries" if "vm \<noteq> []"
    unfolding vendor_list_def e using that free by (simp add: py_split_join)
  have h: "py_split nl (py_join [nl] (map str prompt_head)) = map str prompt_head"
    using prompt_head_nonempty prompt_head_lines by (intro py_split_join) simp_all
  have t: "py_split nl (str prompt_tail) = [str prompt_tail]"
    using prompt_tail_line by (rule py_split_no_sep)
  have p: "py_split nl (build_prompt (vendor_list lib ?items))
      = map str prompt_head @ ?entries @ [[], str prompt_tail]" if "vm \<noteq> []"
    using v [OF that] h t by (simp add: build_prompt_def py_split_append py_split_Cons)
  show ?thesis using v p by (simp add: vendor_list_def)
qed

theorem vendor_list_lines_witness:
  "py_split nl (vendor_list lib_ex
       [(str ''ACME Corp'', JStr (str ''V12345'')), (str ''Office Depot'', JStr (str ''V13579''))])
     = [str ''- ACME Corp: V12345'', str ''- Office Depot: V13579'']"
  using vendor_list_lines [of "[(str ''ACME Corp'', str ''V12345''), (str ''Office Depot'', str ''V13579'')]" lib_ex]
  by (simp add: nl_def)

section \<open>Claims about the single-file tool\<close>





lemmas ex_defs = lib_ex_def decode_ascii_def loads_ex_def answer_line_def bsl_def
  scripted_def reply_of_def world_ex_def ex_files_def login_ok_def file_reply_def
  answer_reply_def ex_args_def ex_vendors_def ex_invoice_def ex_file_data_def

lemmas run_defs = given_def init_client_def rstrip_slash_def login_def post_def print_def
  load_vendor_mappings_def json_load_def upload_file_def path_name_def extract_invoice_def
  file_ref_def process_line_def startswith_def on_event_def parse_answer_def json_text_def
  strip_def isspace_def fence_def show_invoice_def output_path_of_def with_suffix_def
  stem_def write_file_def





section \<open>Claims about the message id across calls\<close>











section \<open>The batch summary\<close>

lemmas batch_defs = batch_ex_def process_invoice_folder_def glob_pdf_def endswith_def
  path_join_def process_pdf_def record_error_def show_saved_def success_entry_def
  error_entry_def write_summary_def is_success_def default_model_def failed_reply_def
  not_json_reply_def Let_def

text \<open>
  C1 on the code, at the specification's own example: the folder lists \<open>a.pdf\<close>,
  \<open>b.pdf\<close> and \<open>c.pdf\<close>, and the upload of \<open>b.pdf\<close> is answered with status 500. The
  outputs of \<open>a.pdf\<close> and \<open>c.pdf\<close> are written and \<open>b.pdf\<close> has none, as the claim says,
  but the summary holds two entries, not three: the \<open>continue\<close> after a failed upload
  skips \<open>results.append\<close>, so the failed file is neither listed nor counted.
\<close>

theorem batch_upload_failure_unlisted:
  "fst (batch_ex [str ''a.pdf'', str ''b.pdf'', str ''c.pdf'']
      [login_ok, file_reply, answer_reply, failed_reply, file_reply, answer_reply]) = Inr ()
   \<and> fs (snd (batch_ex [str ''a.pdf'', str ''b.pdf'', str ''c.pdf'']
      [login_ok, file_reply, answer_reply, failed_reply, file_reply, answer_reply]))
       (str ''in/batch_summary.json'')
     = Some (json_dump lib_ex (JArr [success_entry (str ''a.pdf'') ex_invoice,
                                      success_entry (str ''c.pdf'') ex_invoice]))
   \<and> {BatchUploadFailed, Count (str ''Total'') 2, Count (str ''Success'') 2,
       Count (str ''Failed'') 0}
     \<subseteq> set (stdout (snd (batch_ex [str ''a.pdf'', str ''b.pdf'', str ''c.pdf'']
      [login_ok, file_reply, answer_reply, failed_reply, file_reply, answer_reply])))
   \<and> map (fs (snd (batch_ex [str ''a.pdf'', str ''b.pdf'', str ''c.pdf'']
      [login_ok, file_reply, answer_reply, failed_reply, file_reply, answer_reply])))
       [str ''in/a.json'', str ''in/b.json'', str ''in/c.json'']
     = [Some (json_dump lib_ex ex_invoice), None, Some (json_dump lib_ex ex_invoice)]"
proof -
  have "\<exists>w. batch_ex [str ''a.pdf'', str ''b.pdf'', str ''c.pdf'']
        [login_ok, file_reply, answer_reply, failed_reply, file_reply, answer_reply] = (Inr (), w)
      \<and> fs w (str ''in/batch_summary.json'')
        = Some (json_dump lib_ex (JArr [success_entry (str ''a.pdf'') ex_invoice,
                                         success_entry (str ''c.pdf'') ex_invoice]))
      \<and> {BatchUploadFailed, Count (str ''Total'') 2, Count (str ''Success'') 2,
          Count (str ''Failed'') 0} \<subseteq> set (stdout w)
      \<and> map (fs w) [str ''in/a.json'', str ''in/b.json'', str ''in/c.json'']
        = [Some (json_dump lib_ex ex_invoice), None, Some (json_dump lib_ex ex_invoice)]"
    by (simp add: batch_defs ex_defs run_defs)
  then show ?thesis
    by (elim exE conjE) (simp only: fst_conv snd_conv simp_thms)
qed

text \<open>
  C5 on the code, at a folder with the one file \<open>a.pdf\<close> whose final answer is the text
  \<open>not json\<close>: \<open>extract_invoice\<close> prints the error and the raw text and returns
  \<open>None\<close>, and no \<open>a.json\<close> is written, as the claim says; but the batch driver does
  not count the file as failed. The \<open>continue\<close> after a failed extraction skips
  \<open>results.append\<close>: the summary is empty and the counts are all 0.
\<close>

theorem batch_parse_failure_uncounted:
  "fst (extract_invoice lib_ex scripted ex_file_data ex_vendors default_model None
        (init_client (str ''http://localhost:3080'')) (world_ex ex_files [] [not_json_reply]))
     = Inr JNull
   \<and> stdout (snd (snd (extract_invoice lib_ex scripted ex_file_data ex_vendors default_model None
        (init_client (str ''http://localhost:3080'')) (world_ex ex_files [] [not_json_reply]))))
     = [SendingRequest default_model, ExtractionComplete,
        FailedToParse (str ''Expecting value: line 1 column 1 (char 0)''),
        RawResponse (str ''not json'')]
   \<and> fst (batch_ex [str ''a.pdf''] [login_ok, file_reply, not_json_reply]) = Inr ()
   \<and> {BatchExtractionFailed, Count (str ''Total'') 0, Count (str ''Success'') 0,
       Count (str ''Failed'') 0}
     \<subseteq> set (stdout (snd (batch_ex [str ''a.pdf''] [login_ok, file_reply, not_json_reply])))
   \<and> fs (snd (batch_ex [str ''a.pdf''] [login_ok, file_reply, not_json_reply]))
       (str ''in/a.json'') = None
   \<and> fs (snd (batch_ex [str ''a.pdf''] [login_ok, file_reply, not_json_reply]))
       (str ''in/batch_summary.json'') = Some (json_dump lib_ex (JArr []))"
proof -
  have "\<exists>r. extract_invoice lib_ex scripted ex_file_data ex_vendors default_model None
        (init_client (str ''http://localhost:3080'')) (world_ex ex_files [] [not_json_reply]) = r
      \<and> fst r = Inr JNull
      \<and> stdout (snd (snd r))
        = [SendingRequest default_model, ExtractionComplete,
           FailedToParse (str ''Expecting value: line 1 column 1 (char 0)''),
           RawResponse (str ''not json'')]"
    by (simp add: batch_defs ex_defs run_defs)
  then have e: "fst (extract_invoice lib_ex scripted ex_file_data ex_vendors default_model None
        (init_client (str ''http://localhost:3080'')) (world_ex ex_files [] [not_json_reply]))
      = Inr JNull
    \<and> stdout (snd (snd (extract_invoice lib_ex scripted ex_file_data ex_vendors default_model
        None (init_client (str ''http://localhost:3080'')) (world_ex ex_files [] [not_json_reply]))))
      = [SendingRequest default_model, ExtractionComplete,
         FailedToParse (str ''Expecting value: line 1 column 1 (char 0)''),
         RawResponse (str ''not json'')]"
    by (simp only: simp_thms)
  have "\<exists>w. batch_ex [str ''a.pdf''] [login_ok, file_reply, not_json_reply] = (Inr (), w)
      \<and> {BatchExtractionFailed, Count (str ''Total'') 0, Count (str ''Success'') 0,
          Count (str ''Failed'') 0} \<subseteq> set (stdout w)
      \<and> fs w (str ''in/a.json'') = None
      \<and> fs w (str ''in/batch_summary.json'') = Some (json_dump lib_ex (JArr []))"
    by (simp add: batch_defs ex_defs run_defs)
  then have "fst (batch_ex [str ''a.pdf''] [login_ok, file_reply, not_json_reply]) = Inr ()
      \<and> {BatchExtractionFailed, Count (str ''Total'') 0, Count (str ''Success'') 0,
          Count (str ''Failed'') 0}
        \<subseteq> set (stdout (snd (batch_ex [str ''a.pdf''] [login_ok, file_reply, not_json_reply])))
      \<and> fs (snd (batch_ex [str ''a.pdf''] [login_ok, file_reply, not_json_reply]))
          (str ''in/a.json'') = None
      \<and> fs (snd (batch_ex [str ''a.pdf''] [login_ok, file_reply, not_json_reply]))
          (str ''in/batch_summary.json'') = Some (json_dump lib_ex (JArr []))"
    by (elim exE conjE) (simp only: fst_conv snd_conv simp_thms)
  with e show ?thesis by (simp only: simp_thms)
qed


end
